theory Spec2Isabelle
  imports Complex_Main "HOL-Library.Log_Nat"
begin

section \<open>Trace model\<close>

text \<open>
  The step kinds of \<open>STEP_TYPE_CONFIG\<close>; a step's \<open>payload\<close> is an open record of
  JavaScript values, kept here as an association list.
\<close>

datatype AlgorithmStepType = Visit | Compare | Swap | Frontier | Path | Pivot | Custom

datatype js_value = JNum int | JStr string | JArr "js_value list"

record AlgorithmStep =
  step_id :: int
  step_type :: AlgorithmStepType
  payload :: "(string \<times> js_value) list"

record ExecutionMetadata =
  timeComplexity :: string
  spaceComplexity :: string
  notes_opt :: "string option"

record ExecutionTrace =
  steps :: "AlgorithmStep list"
  metadata :: ExecutionMetadata

definition MOCK_TRACE :: ExecutionTrace where
  "MOCK_TRACE =
    \<lparr>steps =
      [\<lparr>step_id = 0, step_type = Visit,
          payload = [(''node'', JNum 1), (''label'', JStr ''Start node'')]\<rparr>,
       \<lparr>step_id = 1, step_type = Compare,
          payload = [(''a'', JNum 1), (''b'', JNum 2), (''label'', JStr ''Compare neighbors'')]\<rparr>,
       \<lparr>step_id = 2, step_type = Visit,
          payload = [(''node'', JNum 2), (''label'', JStr ''Move to node 2'')]\<rparr>,
       \<lparr>step_id = 3, step_type = Frontier,
          payload = [(''nodes'', JArr [JNum 3, JNum 4]), (''label'', JStr ''Add to frontier'')]\<rparr>,
       \<lparr>step_id = 4, step_type = Compare,
          payload = [(''a'', JNum 2), (''b'', JNum 3), (''label'', JStr ''Evaluate cost'')]\<rparr>,
       \<lparr>step_id = 5, step_type = Visit,
          payload = [(''node'', JNum 3), (''label'', JStr ''Visit node 3'')]\<rparr>,
       \<lparr>step_id = 6, step_type = Pivot,
          payload = [(''node'', JNum 3), (''label'', JStr ''Set as pivot'')]\<rparr>,
       \<lparr>step_id = 7, step_type = Swap,
          payload = [(''i'', JNum 0), (''j'', JNum 3), (''label'', JStr ''Swap elements'')]\<rparr>,
       \<lparr>step_id = 8, step_type = Visit,
          payload = [(''node'', JNum 4), (''label'', JStr ''Visit node 4'')]\<rparr>,
       \<lparr>step_id = 9, step_type = Path,
          payload = [(''nodes'', JArr [JNum 1, JNum 2, JNum 3, JNum 4]),
                     (''label'', JStr ''Final path found'')]\<rparr>],
     metadata =
       \<lparr>timeComplexity = ''O(V + E)'', spaceComplexity = ''O(V)'',
        notes_opt = Some ''Mock BFS-style trace for engine validation. No real algorithm runs here.''\<rparr>\<rparr>"


section \<open>Playback engine\<close>

text \<open>
  The reducer's state. \<open>trace\<close> is \<open>None\<close> for JavaScript's \<open>null\<close>. The step index is
  a JavaScript number that only ever holds integers here (it is set to 0, incremented,
  decremented or clamped from an integer payload), modelled as an unbounded \<open>int\<close>.
\<close>

record PlaybackState =
  trace :: "ExecutionTrace option"
  currentStepIndex :: int
  isPlaying :: bool

text \<open>
  The actions of \<open>PlaybackActions\<close>, \<open>JUMP\<close> and \<open>SET_TRACE\<close> with their payloads.
  \<open>OTHER\<close> stands for an action whose \<open>type\<close> is none of them (the reducer's
  \<open>default\<close> branch).
\<close>

datatype PlaybackAction =
    PLAY
  | PAUSE
  | STEP_FWD
  | STEP_BACK
  | RESET
  | JUMP int
  | TICK
  | SET_TRACE "ExecutionTrace option"
  | OTHER string

definition initialPlaybackState :: PlaybackState where
  "initialPlaybackState = \<lparr>trace = None, currentStepIndex = 0, isPlaying = False\<rparr>"

text \<open>\<open>const totalSteps = state.trace ? state.trace.steps.length : 0\<close>\<close>

definition totalSteps :: "PlaybackState \<Rightarrow> int" where
  "totalSteps s = (case trace s of None \<Rightarrow> 0 | Some t \<Rightarrow> int (length (steps t)))"

fun playbackReducer :: "PlaybackState \<Rightarrow> PlaybackAction \<Rightarrow> PlaybackState" where
  "playbackReducer s (SET_TRACE p) = initialPlaybackState\<lparr>trace := p\<rparr>"
| "playbackReducer s PLAY =
     (if trace s = None \<or> currentStepIndex s \<ge> totalSteps s - 1 then s
      else s\<lparr>isPlaying := True\<rparr>)"
| "playbackReducer s PAUSE = s\<lparr>isPlaying := False\<rparr>"
| "playbackReducer s TICK =
     (let next = currentStepIndex s + 1 in
      if next \<ge> totalSteps s then s\<lparr>isPlaying := False\<rparr>
      else s\<lparr>currentStepIndex := next\<rparr>)"
| "playbackReducer s STEP_FWD =
     (let next = currentStepIndex s + 1 in
      if next \<ge> totalSteps s then s\<lparr>isPlaying := False\<rparr>
      else s\<lparr>currentStepIndex := next\<rparr>)"
| "playbackReducer s STEP_BACK =
     (let prev = max 0 (currentStepIndex s - 1) in
      s\<lparr>isPlaying := False, currentStepIndex := prev\<rparr>)"
| "playbackReducer s RESET = s\<lparr>currentStepIndex := 0, isPlaying := False\<rparr>"
| "playbackReducer s (JUMP p) =
     (let idx = max 0 (min (totalSteps s - 1) p) in
      s\<lparr>currentStepIndex := idx, isPlaying := False\<rparr>)"
| "playbackReducer s (OTHER ty) = s"

text \<open>
  The engine object of \<open>usePlaybackEngine\<close>: the reducer state and the speed ref.
  A speed is a JavaScript number, held here as the real number it denotes;
  \<open>Math.max\<close> and \<open>Math.min\<close> only compare, so they are exact on these values.
\<close>

record PlaybackEngine =
  state :: PlaybackState
  speedRef :: real

definition usePlaybackEngine :: "ExecutionTrace option \<Rightarrow> PlaybackEngine" where
  "usePlaybackEngine initialTrace =
     \<lparr>state = initialPlaybackState\<lparr>trace := initialTrace\<rparr>, speedRef = 1\<rparr>"

text \<open>
  \<open>useReducer\<close> applies the dispatched actions one after the other, in the order they
  are issued.
\<close>

fun run :: "PlaybackState \<Rightarrow> PlaybackAction list \<Rightarrow> PlaybackState" where
  "run s [] = s"
| "run s (a # as) = run (playbackReducer s a) as"

text \<open>\<open>speedRef.current = Math.max(0.1, Math.min(5, spd))\<close>\<close>

definition setSpeed :: "PlaybackEngine \<Rightarrow> real \<Rightarrow> PlaybackEngine" where
  "setSpeed e spd = e\<lparr>speedRef := max (1 / 10) (min 5 spd)\<rparr>"

subsection \<open>JavaScript number arithmetic\<close>

text \<open>
  JavaScript numbers are IEEE 754 binary64 values, and \<open>/\<close> returns the exact quotient
  rounded to the nearest binary64 value, ties going to the even significand.
  \<open>round_half_even\<close> is that rounding to an integer.
\<close>

definition round_half_even :: "real \<Rightarrow> int" where
  "round_half_even y =
     (let f = \<lfloor>y\<rfloor> in
      if y - of_int f < 1 / 2 then f
      else if 1 / 2 < y - of_int f then f + 1
      else if even f then f else f + 1)"

text \<open>The binary exponent \<open>e\<close> of a positive real \<open>a\<close>: \<open>2^e \<le> a < 2^(e+1)\<close>.\<close>

definition binary64_exponent :: "real \<Rightarrow> int" where
  "binary64_exponent a =
     (if 1 \<le> a then bitlen \<lfloor>a\<rfloor> - 1 else - bitlen (\<lceil>1 / a\<rceil> - 1))"

text \<open>
  The binary64 value nearest to a real: 53 significant bits, so the spacing in the binade
  of exponent \<open>e\<close> is \<open>2^(e - 52)\<close>. The exponent is not bounded here: overflow to
  \<open>Infinity\<close> and the subnormal numbers are outside the model, and so is a division
  by zero. For the speeds the ref can hold, 0.1 to 5, the quotient \<open>1000 / spd\<close> lies
  between 200 and 10000.
\<close>

definition binary64 :: "real \<Rightarrow> real" where
  "binary64 q =
     (if q = 0 then 0
      else let u = 2 powi (binary64_exponent \<bar>q\<bar> - 52)
           in sgn q * (of_int (round_half_even (\<bar>q\<bar> / u)) * u))"




section \<open>Context\<close>

datatype js_error = Error string

text \<open>
  \<open>PlaybackContext = createContext(null)\<close>: a consumer reads the engine of the nearest
  enclosing \<open>PlaybackProvider\<close> (the head of the list of its enclosing providers'
  engines), or the default \<open>null\<close> (\<open>None\<close>) when there is none.
\<close>

definition useContext_PlaybackContext :: "PlaybackEngine list \<Rightarrow> PlaybackEngine option" where
  "useContext_PlaybackContext providers =
     (case providers of [] \<Rightarrow> None | engine # _ \<Rightarrow> Some engine)"

text \<open>\<open>usePlayback\<close> in a component with the given enclosing providers; a \<open>throw\<close> is
  the left summand.\<close>

definition usePlayback :: "PlaybackEngine list \<Rightarrow> js_error + PlaybackEngine" where
  "usePlayback providers =
     (case useContext_PlaybackContext providers of
        None \<Rightarrow> Inl (Error ''usePlayback must be used within PlaybackProvider'')
      | Some ctx \<Rightarrow> Inr ctx)"


section \<open>Specification-side notions\<close>

text \<open>
  The bounds the data model asks of a playback state: the position is 0 without a trace,
  and lies between 0 and \<open>max(0, len(steps) - 1)\<close> with one.
\<close>

definition position_in_bounds :: "PlaybackState \<Rightarrow> bool" where
  "position_in_bounds s =
     (case trace s of
        None \<Rightarrow> currentStepIndex s = 0
      | Some t \<Rightarrow> 0 \<le> currentStepIndex s \<and>
                  currentStepIndex s \<le> max 0 (int (length (steps t)) - 1))"

text \<open>What the reducer keeps true of \<open>isPlaying\<close>: a playing state has a trace of
  at least two steps and a position before its end.\<close>

definition playing_in_trace :: "PlaybackState \<Rightarrow> bool" where
  "playing_in_trace s =
     (isPlaying s \<longrightarrow>
        trace s \<noteq> None \<and> currentStepIndex s < totalSteps s \<and> 2 \<le> totalSteps s)"

text \<open>
  The specification's \<open>clamp(x, lo, hi)\<close>: a value below the range goes to the lower
  bound, a value above it to the upper bound, any other value is kept.
\<close>

definition clamp :: "'a::linorder \<Rightarrow> 'a \<Rightarrow> 'a \<Rightarrow> 'a" where
  "clamp x lo hi = (if x < lo then lo else if hi < x then hi else x)"



text \<open>
  The scenario of the specification: the ten-step trace at position 0, not playing;
  then \<open>PLAY\<close> and nine advances.
\<close>

definition scenario_start :: PlaybackState where
  "scenario_start = \<lparr>trace = Some MOCK_TRACE, currentStepIndex = 0, isPlaying = False\<rparr>"

definition scenario_after_nine :: PlaybackState where
  "scenario_after_nine = run (playbackReducer scenario_start PLAY) (replicate 9 TICK)"


section \<open>Basic facts\<close>

lemma length_MOCK_TRACE: "length (steps MOCK_TRACE) = 10"
  by (simp add: MOCK_TRACE_def)

lemma totalSteps_update [simp]:
  "totalSteps (s\<lparr>currentStepIndex := i\<rparr>) = totalSteps s"
  "totalSteps (s\<lparr>isPlaying := b\<rparr>) = totalSteps s"
  by (simp_all add: totalSteps_def)

lemma totalSteps_Some [simp]:
  "totalSteps \<lparr>trace = Some t, currentStepIndex = i, isPlaying = b\<rparr> = int (length (steps t))"
  by (simp add: totalSteps_def)

lemma reducer_keeps_bounds:
  "position_in_bounds s \<Longrightarrow> position_in_bounds (playbackReducer s a)"
  by (cases a)
    (auto simp: position_in_bounds_def totalSteps_def initialPlaybackState_def Let_def
      split: option.splits)

lemma reducer_keeps_playing:
  "position_in_bounds s \<Longrightarrow> playing_in_trace s \<Longrightarrow> playing_in_trace (playbackReducer s a)"
  by (cases a)
    (auto simp: position_in_bounds_def playing_in_trace_def totalSteps_def
      initialPlaybackState_def Let_def split: option.splits)

lemma run_keeps_bounds:
  "position_in_bounds s \<Longrightarrow> position_in_bounds (run s as)"
  by (induction as arbitrary: s) (simp_all add: reducer_keeps_bounds)

lemma run_keeps_playing:
  "position_in_bounds s \<Longrightarrow> playing_in_trace s \<Longrightarrow> playing_in_trace (run s as)"
  by (induction as arbitrary: s) (simp_all add: reducer_keeps_bounds reducer_keeps_playing)

lemma initial_bounds: "position_in_bounds (state (usePlaybackEngine T))"
  by (simp add: usePlaybackEngine_def initialPlaybackState_def position_in_bounds_def
      split: option.splits)

lemma initial_playing: "playing_in_trace (state (usePlaybackEngine T))"
  by (simp add: usePlaybackEngine_def initialPlaybackState_def playing_in_trace_def)

text \<open>Advances that stay before the end of the trace only move the position.\<close>

lemma run_advances:
  "set as \<subseteq> {TICK, STEP_FWD} \<Longrightarrow> currentStepIndex s + int (length as) < totalSteps s \<Longrightarrow>
   run s as = s\<lparr>currentStepIndex := currentStepIndex s + int (length as)\<rparr>"
proof (induction as arbitrary: s)
  case Nil
  then show ?case by simp
next
  case (Cons a as)
  from Cons.prems have a: "a = TICK \<or> a = STEP_FWD" and as: "set as \<subseteq> {TICK, STEP_FWD}"
    by auto
  from Cons.prems(2) have
    step: "playbackReducer s a = s\<lparr>currentStepIndex := currentStepIndex s + 1\<rparr>"
    using a by (auto simp: Let_def)
  have "run (playbackReducer s a) as =
      (playbackReducer s a)\<lparr>currentStepIndex :=
        currentStepIndex (playbackReducer s a) + int (length as)\<rparr>"
    using Cons.prems(2) by (intro Cons.IH [OF as]) (simp add: step)
  then show ?case by (simp add: step add.assoc)
qed

lemma scenario_after_nine_eq:
  "scenario_after_nine = \<lparr>trace = Some MOCK_TRACE, currentStepIndex = 9, isPlaying = True\<rparr>"
  by (simp add: scenario_after_nine_def scenario_start_def length_MOCK_TRACE numeral_eq_Suc)


section \<open>Facts about the number arithmetic\<close>















text \<open>The literal \<open>0.1\<close> is the binary64 number \<open>3602879701896397 / 2^55\<close>.\<close>

lemma binary64_tenth: "binary64 (1 / 10) = 3602879701896397 / 36028797018963968"
  by (simp add: binary64_def binary64_exponent_def compute_bitlen round_half_even_def Let_def)







section \<open>The state machine\<close>

text \<open>
  C4: for every prior state, \<open>SET_TRACE\<close> with payload \<open>t\<close> yields the state with
  trace \<open>t\<close>, position 0 and \<open>isPlaying\<close> false.
\<close>

theorem set_trace_resets:
  "playbackReducer s (SET_TRACE t) = \<lparr>trace = t, currentStepIndex = 0, isPlaying = False\<rparr>"
  by (simp add: initialPlaybackState_def)

text \<open>
  C10: for every state, the reducer maps the timer's \<open>TICK\<close> and the user's
  \<open>STEP_FWD\<close> to the same state.
\<close>

theorem tick_is_step_fwd:
  "playbackReducer s TICK = playbackReducer s STEP_FWD"
  by simp

text \<open>
  C3: for every initial trace \<open>T\<close> (or none) and every sequence of commands applied from
  the engine's initial state, the position is 0 when the state has no trace and lies
  between 0 and \<open>max(0, len(steps) - 1)\<close> when it has one.
\<close>

theorem position_stays_in_bounds:
  "position_in_bounds (run (state (usePlaybackEngine T)) cmds)"
  by (rule run_keeps_bounds [OF initial_bounds])

text \<open>
  C1, as stated, fails: after \<open>JUMP 8\<close>, \<open>PLAY\<close> and one \<open>TICK\<close> on the ten-step trace
  the engine is playing at the last step, position \<open>len(steps) - 1\<close>.
\<close>

theorem playing_at_last_step_reachable:
  "isPlaying (run (state (usePlaybackEngine (Some MOCK_TRACE))) [JUMP 8, PLAY, TICK]) \<and>
   currentStepIndex (run (state (usePlaybackEngine (Some MOCK_TRACE))) [JUMP 8, PLAY, TICK]) =
     int (length (steps MOCK_TRACE)) - 1"
  by (simp add: usePlaybackEngine_def initialPlaybackState_def totalSteps_def length_MOCK_TRACE)

text \<open>
  C1, amended: in every state reachable from the engine's initial state, a playing state
  has a trace of at least two steps and a position between 0 and \<open>len(steps) - 1\<close>.
  The last step is not excluded, but \<open>PLAY\<close> never starts playback there: an action
  that changes the state yields a state playing at the last step only when it is an
  advance (\<open>TICK\<close> or \<open>STEP_FWD\<close>) from a playing state at position
  \<open>len(steps) - 2\<close>. An advance issued at the last step yields a state that is not
  playing.
\<close>

theorem playing_only_inside_trace:
  "(isPlaying (run (state (usePlaybackEngine T)) cmds) \<longrightarrow>
      (\<exists>t. trace (run (state (usePlaybackEngine T)) cmds) = Some t \<and>
           2 \<le> length (steps t) \<and>
           0 \<le> currentStepIndex (run (state (usePlaybackEngine T)) cmds) \<and>
           currentStepIndex (run (state (usePlaybackEngine T)) cmds) \<le> int (length (steps t)) - 1)) \<and>
   (isPlaying (playbackReducer s a) \<and>
    currentStepIndex (playbackReducer s a) = totalSteps (playbackReducer s a) - 1 \<and>
    playbackReducer s a \<noteq> s \<longrightarrow>
      (a = TICK \<or> a = STEP_FWD) \<and> isPlaying s \<and> currentStepIndex s = totalSteps s - 2) \<and>
   (currentStepIndex s = totalSteps s - 1 \<longrightarrow>
      playbackReducer s PLAY = s \<and>
      \<not> isPlaying (playbackReducer s TICK) \<and> \<not> isPlaying (playbackReducer s STEP_FWD))"
proof -
  let ?s = "run (state (usePlaybackEngine T)) cmds"
  have b: "position_in_bounds ?s"
    by (rule run_keeps_bounds [OF initial_bounds])
  have p: "playing_in_trace ?s"
    by (rule run_keeps_playing [OF initial_bounds initial_playing])
  have reach: "\<exists>t. trace ?s = Some t \<and> 2 \<le> length (steps t) \<and> 0 \<le> currentStepIndex ?s \<and>
      currentStepIndex ?s \<le> int (length (steps t)) - 1" if "isPlaying ?s"
  proof -
    from p that obtain t where t: "trace ?s = Some t"
      and lt: "currentStepIndex ?s < totalSteps ?s" and two: "2 \<le> totalSteps ?s"
      by (auto simp: playing_in_trace_def)
    from b t have "0 \<le> currentStepIndex ?s"
      by (simp add: position_in_bounds_def)
    with t lt two show ?thesis
      by (simp add: totalSteps_def)
  qed
  have enter: "(a = TICK \<or> a = STEP_FWD) \<and> isPlaying s \<and> currentStepIndex s = totalSteps s - 2"
    if "isPlaying (playbackReducer s a)"
      and "currentStepIndex (playbackReducer s a) = totalSteps (playbackReducer s a) - 1"
      and "playbackReducer s a \<noteq> s"
    using that
    by (cases a) (auto simp: Let_def initialPlaybackState_def split: if_splits)
  have last: "playbackReducer s PLAY = s \<and>
      \<not> isPlaying (playbackReducer s TICK) \<and> \<not> isPlaying (playbackReducer s STEP_FWD)"
    if "currentStepIndex s = totalSteps s - 1"
    using that by (simp add: Let_def)
  from reach enter last show ?thesis by blast
qed

text \<open>The amended C1 on the ten-step trace: playing after \<open>PLAY\<close> and \<open>TICK\<close>; the
  \<open>TICK\<close> from position 8 enters the last step playing; and there \<open>PLAY\<close> changes
  nothing and \<open>TICK\<close> stops playback.\<close>

theorem playing_only_inside_trace_witness:
  "isPlaying (run (state (usePlaybackEngine (Some MOCK_TRACE))) [PLAY, TICK]) \<and>
   (\<exists>t. trace (run (state (usePlaybackEngine (Some MOCK_TRACE))) [PLAY, TICK]) = Some t \<and>
      2 \<le> length (steps t) \<and>
      0 \<le> currentStepIndex (run (state (usePlaybackEngine (Some MOCK_TRACE))) [PLAY, TICK]) \<and>
      currentStepIndex (run (state (usePlaybackEngine (Some MOCK_TRACE))) [PLAY, TICK])
        \<le> int (length (steps t)) - 1) \<and>
   playbackReducer \<lparr>trace = Some MOCK_TRACE, currentStepIndex = 8, isPlaying = True\<rparr> TICK =
     scenario_after_nine \<and>
   currentStepIndex \<lparr>trace = Some MOCK_TRACE, currentStepIndex = 8, isPlaying = True\<rparr> =
     totalSteps \<lparr>trace = Some MOCK_TRACE, currentStepIndex = 8, isPlaying = True\<rparr> - 2 \<and>
   currentStepIndex scenario_after_nine = totalSteps scenario_after_nine - 1 \<and>
   playbackReducer scenario_after_nine PLAY = scenario_after_nine \<and>
   \<not> isPlaying (playbackReducer scenario_after_nine TICK)"
proof -
  let ?s8 = "\<lparr>trace = Some MOCK_TRACE, currentStepIndex = 8, isPlaying = True\<rparr>"
  have h: "isPlaying (run (state (usePlaybackEngine (Some MOCK_TRACE))) [PLAY, TICK])"
    by (simp add: usePlaybackEngine_def initialPlaybackState_def totalSteps_def
        length_MOCK_TRACE)
  have k: "currentStepIndex scenario_after_nine = totalSteps scenario_after_nine - 1"
    by (simp add: scenario_after_nine_eq length_MOCK_TRACE)
  have e: "playbackReducer ?s8 TICK = scenario_after_nine"
    by (simp add: scenario_after_nine_eq length_MOCK_TRACE)
  have enters: "isPlaying (playbackReducer ?s8 TICK) \<and>
      currentStepIndex (playbackReducer ?s8 TICK) = totalSteps (playbackReducer ?s8 TICK) - 1 \<and>
      playbackReducer ?s8 TICK \<noteq> ?s8"
    by (simp add: length_MOCK_TRACE)
  from playing_only_inside_trace [of "Some MOCK_TRACE" "[PLAY, TICK]" ?s8 TICK] enters
  have from8: "currentStepIndex ?s8 = totalSteps ?s8 - 2"
    by blast
  from playing_only_inside_trace [of "Some MOCK_TRACE" "[PLAY, TICK]" scenario_after_nine TICK]
    h k e from8
  show ?thesis by blast
qed

text \<open>
  C2, as stated, fails: after \<open>PLAY\<close> and nine advances on the ten-step trace the
  position is 9 but the engine is still playing, and the tenth advance changes the state.
\<close>

theorem scenario_as_stated_fails:
  "currentStepIndex scenario_after_nine = 9 \<and> isPlaying scenario_after_nine \<and>
   playbackReducer scenario_after_nine TICK \<noteq> scenario_after_nine"
  by (simp add: scenario_after_nine_eq length_MOCK_TRACE)

text \<open>
  C2, amended: for a ten-step trace at position 0, not playing, \<open>PLAY\<close> sets
  \<open>isPlaying\<close>; nine advances then reach position 9, still playing; the tenth advance
  keeps position 9 and clears \<open>isPlaying\<close>; one more advance changes nothing.
\<close>

theorem ten_step_scenario:
  assumes len: "length (steps t) = 10"
    and advs: "set advs \<subseteq> {TICK, STEP_FWD}" "length advs = 9"
    and a: "a \<in> {TICK, STEP_FWD}"
  shows "playbackReducer \<lparr>trace = Some t, currentStepIndex = 0, isPlaying = False\<rparr> PLAY =
      \<lparr>trace = Some t, currentStepIndex = 0, isPlaying = True\<rparr> \<and>
    run \<lparr>trace = Some t, currentStepIndex = 0, isPlaying = True\<rparr> advs =
      \<lparr>trace = Some t, currentStepIndex = 9, isPlaying = True\<rparr> \<and>
    playbackReducer \<lparr>trace = Some t, currentStepIndex = 9, isPlaying = True\<rparr> a =
      \<lparr>trace = Some t, currentStepIndex = 9, isPlaying = False\<rparr> \<and>
    playbackReducer \<lparr>trace = Some t, currentStepIndex = 9, isPlaying = False\<rparr> a =
      \<lparr>trace = Some t, currentStepIndex = 9, isPlaying = False\<rparr>"
proof -
  have "playbackReducer \<lparr>trace = Some t, currentStepIndex = 0, isPlaying = False\<rparr> PLAY =
      \<lparr>trace = Some t, currentStepIndex = 0, isPlaying = True\<rparr>"
    using len by simp
  moreover have "run \<lparr>trace = Some t, currentStepIndex = 0, isPlaying = True\<rparr> advs =
      \<lparr>trace = Some t, currentStepIndex = 9, isPlaying = True\<rparr>"
    using run_advances [OF advs(1), of "\<lparr>trace = Some t, currentStepIndex = 0, isPlaying = True\<rparr>"]
      len advs(2) by simp
  moreover have "playbackReducer \<lparr>trace = Some t, currentStepIndex = 9, isPlaying = b\<rparr> a =
      \<lparr>trace = Some t, currentStepIndex = 9, isPlaying = False\<rparr>" for b
    using a len by (auto simp: Let_def)
  ultimately show ?thesis by simp
qed

text \<open>The amended C2 on \<open>MOCK_TRACE\<close>, with timer ticks and manual steps mixed.\<close>

theorem ten_step_scenario_witness:
  "length (steps MOCK_TRACE) = 10 \<and>
   playbackReducer scenario_start PLAY =
      \<lparr>trace = Some MOCK_TRACE, currentStepIndex = 0, isPlaying = True\<rparr> \<and>
   run \<lparr>trace = Some MOCK_TRACE, currentStepIndex = 0, isPlaying = True\<rparr>
      [TICK, TICK, STEP_FWD, TICK, TICK, TICK, STEP_FWD, TICK, TICK] =
      \<lparr>trace = Some MOCK_TRACE, currentStepIndex = 9, isPlaying = True\<rparr> \<and>
   playbackReducer \<lparr>trace = Some MOCK_TRACE, currentStepIndex = 9, isPlaying = True\<rparr> TICK =
      \<lparr>trace = Some MOCK_TRACE, currentStepIndex = 9, isPlaying = False\<rparr> \<and>
   playbackReducer \<lparr>trace = Some MOCK_TRACE, currentStepIndex = 9, isPlaying = False\<rparr> TICK =
      \<lparr>trace = Some MOCK_TRACE, currentStepIndex = 9, isPlaying = False\<rparr>"
proof -
  have s: "set [TICK, TICK, STEP_FWD, TICK, TICK, TICK, STEP_FWD, TICK, TICK] \<subseteq> {TICK, STEP_FWD}"
    by simp
  have l: "length [TICK, TICK, STEP_FWD, TICK, TICK, TICK, STEP_FWD, TICK, TICK] = 9"
    by simp
  have a: "TICK \<in> {TICK, STEP_FWD}"
    by simp
  from ten_step_scenario [OF length_MOCK_TRACE s l a] length_MOCK_TRACE
  show ?thesis by (simp only: scenario_start_def simp_thms)
qed

text \<open>
  C5: in a state within the position bounds, \<open>PLAY\<close> returns the state unchanged when
  the trace is absent, has no steps, or the position is at the final step; otherwise it
  sets \<open>isPlaying\<close> and changes nothing else. The reducer is a total function: no
  branch raises.
\<close>

theorem play_noop_or_starts:
  assumes "position_in_bounds s"
  shows "playbackReducer s PLAY =
     (if (case trace s of
            None \<Rightarrow> True
          | Some t \<Rightarrow> length (steps t) = 0 \<or>
                      currentStepIndex s = int (length (steps t)) - 1)
      then s else s\<lparr>isPlaying := True\<rparr>)"
  using assms
  by (auto simp: position_in_bounds_def totalSteps_def split: option.splits)

text \<open>C5 in the middle of the ten-step trace, at its last step, and without a trace.\<close>

theorem play_noop_or_starts_witness:
  "position_in_bounds \<lparr>trace = Some MOCK_TRACE, currentStepIndex = 3, isPlaying = False\<rparr> \<and>
   playbackReducer \<lparr>trace = Some MOCK_TRACE, currentStepIndex = 3, isPlaying = False\<rparr> PLAY =
     \<lparr>trace = Some MOCK_TRACE, currentStepIndex = 3, isPlaying = True\<rparr> \<and>
   position_in_bounds \<lparr>trace = Some MOCK_TRACE, currentStepIndex = 9, isPlaying = False\<rparr> \<and>
   playbackReducer \<lparr>trace = Some MOCK_TRACE, currentStepIndex = 9, isPlaying = False\<rparr> PLAY =
     \<lparr>trace = Some MOCK_TRACE, currentStepIndex = 9, isPlaying = False\<rparr> \<and>
   position_in_bounds initialPlaybackState \<and>
   playbackReducer initialPlaybackState PLAY = initialPlaybackState"
proof -
  have a: "position_in_bounds \<lparr>trace = Some MOCK_TRACE, currentStepIndex = 3, isPlaying = False\<rparr>"
    by (simp add: position_in_bounds_def length_MOCK_TRACE)
  have b: "position_in_bounds \<lparr>trace = Some MOCK_TRACE, currentStepIndex = 9, isPlaying = False\<rparr>"
    by (simp add: position_in_bounds_def length_MOCK_TRACE)
  have c: "position_in_bounds initialPlaybackState"
    by (simp add: position_in_bounds_def initialPlaybackState_def)
  have d: "trace initialPlaybackState = None"
    by (simp add: initialPlaybackState_def)
  from play_noop_or_starts [OF a] play_noop_or_starts [OF b] play_noop_or_starts [OF c] a b c d
  show ?thesis by (simp add: length_MOCK_TRACE)
qed

text \<open>
  C6: for every state and every integer \<open>i\<close>, \<open>JUMP\<close> with payload \<open>i\<close> sets the
  position to \<open>clamp(i, 0, len(steps) - 1)\<close>, to 0 when the trace is empty or absent,
  and clears \<open>isPlaying\<close>; the trace is kept.
\<close>

theorem jump_clamps:
  "playbackReducer s (JUMP i) =
     s\<lparr>currentStepIndex :=
         (case trace s of
            None \<Rightarrow> 0
          | Some t \<Rightarrow> if length (steps t) = 0 then 0
                      else clamp i 0 (int (length (steps t)) - 1)),
       isPlaying := False\<rparr>"
  by (cases "trace s") (auto simp: totalSteps_def clamp_def Let_def)


section \<open>Speed\<close>

text \<open>
  C7: for every speed \<open>x\<close>, \<open>setSpeed\<close> stores \<open>clamp(x, 0.1, 5.0)\<close> in the speed ref
  and leaves the playback state (trace, position and \<open>isPlaying\<close>) as it was.
\<close>

theorem setSpeed_clamps_only_speed:
  "speedRef (setSpeed e x) = clamp x (1 / 10) 5 \<and> state (setSpeed e x) = state e"
  by (simp add: setSpeed_def clamp_def)





section \<open>Reading the engine without a provider\<close>

text \<open>
  C9: \<open>usePlayback\<close> with no enclosing \<open>PlaybackProvider\<close> throws its error, and returns
  no engine; under a provider it returns that provider's engine.
\<close>

theorem usePlayback_fails_fast:
  "usePlayback [] = Inl (Error ''usePlayback must be used within PlaybackProvider'') \<and>
   usePlayback (engine # providers) = Inr engine"
  by (simp add: usePlayback_def useContext_PlaybackContext_def)

end
